theory Spec2Isabelle
  imports Main
begin

section \<open>Antidote: inlining the assets of a web page\<close>

text \<open>
  The development embeds the Go package \<open>antidote\<close> (\<open>antidote.go\<close> and the helper file
  holding \<open>fetch\<close>, \<open>addHttpProtocolIfNotExists\<close> and \<open>normalizeSourceUrl\<close>).
  A Go \<open>string\<close> is a byte sequence and is modelled by the \<open>char list\<close> of its bytes.
  A Go result \<open>(v, err)\<close> is a sum: \<open>Inl err\<close> when \<open>err \<noteq> nil\<close>, \<open>Inr v\<close> otherwise.
  The standard library and the HTML library are collaborators of the package: the
  functions of the package take them as parameters, and the models of them given below
  are used where a concrete run is evaluated.
\<close>

subsection \<open>Errors and panics\<close>

datatype error =
    ConfigurationError string
  | URLError string
  | TransportError string
  | ReadError string
  | PatternError string
  | LoadError string
  | RenderError string
  | Unmodelled

text \<open>A Go computation either returns a value or panics; an unrecovered panic in a
  goroutine ends the whole process.\<close>

datatype 'a outcome = Panic string | Done 'a

subsection \<open>Package \<open>strings\<close>\<close>

fun HasPrefix :: "string \<Rightarrow> string \<Rightarrow> bool" where
  "HasPrefix s [] = True"
| "HasPrefix [] (p # ps) = False"
| "HasPrefix (c # cs) (p # ps) = (c = p \<and> HasPrefix cs ps)"

fun Contains :: "string \<Rightarrow> string \<Rightarrow> bool" where
  "Contains [] sub = (sub = [])"
| "Contains (c # cs) sub = (HasPrefix (c # cs) sub \<or> Contains cs sub)"

text \<open>\<open>strings.Replace(s, old, new, n)\<close>: the first \<open>n\<close> non-overlapping occurrences of
  \<open>old\<close>, from the left, are replaced; a negative \<open>n\<close> replaces all of them. An empty
  \<open>old\<close> matches before every character and at the end.\<close>

fun ReplaceEmpty :: "string \<Rightarrow> string \<Rightarrow> int \<Rightarrow> string" where
  "ReplaceEmpty [] new n = (if n = 0 then [] else new)"
| "ReplaceEmpty (c # cs) new n =
     (if n = 0 then c # cs else new @ c # ReplaceEmpty cs new (n - 1))"

function ReplaceNonEmpty :: "string \<Rightarrow> string \<Rightarrow> string \<Rightarrow> int \<Rightarrow> string" where
  "ReplaceNonEmpty s old new n =
     (if n = 0 \<or> s = [] \<or> old = [] then s
      else if HasPrefix s old
        then new @ ReplaceNonEmpty (drop (length old) s) old new (n - 1)
      else hd s # ReplaceNonEmpty (tl s) old new n)"
  by pat_completeness auto
termination
  by (relation "measure (\<lambda>(s, old, new, n). length s)") auto

definition Replace :: "string \<Rightarrow> string \<Rightarrow> string \<Rightarrow> int \<Rightarrow> string" where
  "Replace s old new n =
     (if old = [] then ReplaceEmpty s new n else ReplaceNonEmpty s old new n)"

text \<open>\<open>strings.ToLower\<close> on ASCII letters.\<close>

definition isUpper :: "char \<Rightarrow> bool" where
  "isUpper c = (65 \<le> (of_char c :: nat) \<and> (of_char c :: nat) \<le> 90)"

definition isLower :: "char \<Rightarrow> bool" where
  "isLower c = (97 \<le> (of_char c :: nat) \<and> (of_char c :: nat) \<le> 122)"

definition isDigit :: "char \<Rightarrow> bool" where
  "isDigit c = (48 \<le> (of_char c :: nat) \<and> (of_char c :: nat) \<le> 57)"

definition toLowerChar :: "char \<Rightarrow> char" where
  "toLowerChar c = (if isUpper c then char_of ((of_char c :: nat) + 32) else c)"

definition ToLower :: "string \<Rightarrow> string" where
  "ToLower s = map toLowerChar s"

subsection \<open>Package \<open>net/url\<close>: the parser\<close>

text \<open>
  The package reads only \<open>Host\<close> of a parsed URL, and whether parsing failed.
  \<open>go_url_Parse\<close> follows \<open>url.Parse\<close>: the fragment is cut off at the first \<open>#\<close>,
  a control byte is an error, \<open>getScheme\<close> splits a leading scheme, the query is cut off
  at the first \<open>?\<close>, a colon in the first segment of a relative path is an error, and an
  authority follows a leading \<open>//\<close>. The host is the authority after its last \<open>@\<close>.
  Percent-decoding and the validation of the host and port are not modelled: the model
  accepts every authority.
\<close>

record url_URL =
  Scheme :: string
  Opaque :: string
  User :: string
  Host :: string
  Path :: string
  RawQuery :: string
  Fragment :: string

definition emptyURL :: url_URL where
  "emptyURL = \<lparr>Scheme = [], Opaque = [], User = [], Host = [], Path = [],
     RawQuery = [], Fragment = []\<rparr>"

definition isCTL :: "char \<Rightarrow> bool" where
  "isCTL c = ((of_char c :: nat) < 32 \<or> (of_char c :: nat) = 127)"

definition cutBefore :: "char \<Rightarrow> string \<Rightarrow> string" where
  "cutBefore sep s = takeWhile (\<lambda>c. c \<noteq> sep) s"

definition cutAfter :: "char \<Rightarrow> string \<Rightarrow> string" where
  "cutAfter sep s = drop 1 (dropWhile (\<lambda>c. c \<noteq> sep) s)"

fun getSchemeFrom :: "string \<Rightarrow> string \<Rightarrow> string \<Rightarrow> error + (string \<times> string)" where
  "getSchemeFrom rawURL seen [] = Inr ([], rawURL)"
| "getSchemeFrom rawURL seen (c # cs) =
     (if isLower c \<or> isUpper c then getSchemeFrom rawURL (seen @ [c]) cs
      else if isDigit c \<or> c = CHR ''+'' \<or> c = CHR ''-'' \<or> c = CHR ''.''
        then (if seen = [] then Inr ([], rawURL) else getSchemeFrom rawURL (seen @ [c]) cs)
      else if c = CHR '':''
        then (if seen = [] then Inl (URLError ''missing protocol scheme'') else Inr (seen, cs))
      else Inr ([], rawURL))"

definition getScheme :: "string \<Rightarrow> error + (string \<times> string)" where
  "getScheme rawURL = getSchemeFrom rawURL [] rawURL"

definition lastAt :: "string \<Rightarrow> string" where
  "lastAt authority = rev (takeWhile (\<lambda>c. c \<noteq> CHR ''@'') (rev authority))"

definition userOf :: "string \<Rightarrow> string" where
  "userOf authority = rev (drop 1 (dropWhile (\<lambda>c. c \<noteq> CHR ''@'') (rev authority)))"

text \<open>An authority follows \<open>//\<close>; without a scheme, \<open>///\<close> starts a path.\<close>

definition hasAuthority :: "string \<Rightarrow> string \<Rightarrow> bool" where
  "hasAuthority scheme rest =
     (if HasPrefix rest ''//''
        then (if scheme = [] then \<not> HasPrefix rest ''///'' else True)
      else False)"

definition parseRest :: "string \<Rightarrow> string \<Rightarrow> error + url_URL" where
  "parseRest scheme rest0 =
     (let rest = cutBefore CHR ''?'' rest0;
          u = emptyURL\<lparr>Scheme := ToLower scheme, RawQuery := cutAfter CHR ''?'' rest0\<rparr>
      in if \<not> HasPrefix rest ''/'' \<and> scheme \<noteq> [] then Inr (u\<lparr>Opaque := rest\<rparr>)
         else if \<not> HasPrefix rest ''/'' \<and> Contains (cutBefore CHR ''/'' rest) '':''
           then Inl (URLError ''first path segment in URL cannot contain colon'')
         else if hasAuthority scheme rest
           then (let authority = cutBefore CHR ''/'' (drop 2 rest)
                 in Inr (u\<lparr>User := userOf authority, Host := lastAt authority,
                           Path := dropWhile (\<lambda>c. c \<noteq> CHR ''/'') (drop 2 rest)\<rparr>))
         else Inr (u\<lparr>Path := rest\<rparr>))"

definition go_url_Parse :: "string \<Rightarrow> error + url_URL" where
  "go_url_Parse rawURL =
     (let u = cutBefore CHR ''#'' rawURL; frag = cutAfter CHR ''#'' rawURL
      in if list_ex isCTL u then Inl (URLError ''invalid control character in URL'')
         else if u = ''*'' then Inr (emptyURL\<lparr>Path := ''*'', Fragment := frag\<rparr>)
         else (case getScheme u of
                 Inl e \<Rightarrow> Inl e
               | Inr (scheme, rest) \<Rightarrow>
                   (case parseRest scheme rest of
                      Inl e \<Rightarrow> Inl e
                    | Inr p \<Rightarrow> Inr (p\<lparr>Fragment := frag\<rparr>))))"

subsection \<open>Package \<open>net/http\<close>: what a request yields\<close>

text \<open>\<open>http.Get\<close> returns an error of the transport, or a response with a status and
  a body; \<open>ioutil.ReadAll\<close> on the body returns its bytes or a read error.\<close>

record Response =
  StatusCode :: nat
  Body :: "error + string"

type_synonym transport = "string \<Rightarrow> error + Response"

subsection \<open>The helper file: \<open>fetch\<close> and the normalizer\<close>

definition fetch :: "transport \<Rightarrow> string \<Rightarrow> error + string" where
  "fetch http_Get url =
     (case http_Get url of
        Inl err \<Rightarrow> Inl err
      | Inr resp \<Rightarrow>
          (case Body resp of
             Inl err \<Rightarrow> Inl err
           | Inr b \<Rightarrow> Inr b))"

definition addHttpProtocolIfNotExists :: "string \<Rightarrow> string" where
  "addHttpProtocolIfNotExists url =
     (if Contains url ''http://'' \<or> Contains url ''https://'' then url
      else ''http://'' @ url)"

definition normalizeSourceUrl ::
  "(string \<Rightarrow> error + url_URL) \<Rightarrow> string \<Rightarrow> url_URL \<Rightarrow> error + string" where
  "normalizeSourceUrl url_Parse assetPath origin =
     (case url_Parse assetPath of
        Inl err \<Rightarrow> Inl err
      | Inr s \<Rightarrow>
          (let assetPath1 = (if HasPrefix assetPath ''//''
                               then Replace assetPath ''//'' '''' 1 else assetPath);
               assetPath2 = Replace assetPath1 ''../'' '''' (- 1)
           in if length (Host s) = 0
                then Inr (addHttpProtocolIfNotExists (Host origin @ ''/'' @ assetPath2))
              else Inr (addHttpProtocolIfNotExists assetPath2)))"

subsection \<open>Package \<open>regexp\<close>: the patterns the package passes\<close>

text \<open>
  \<open>regexp.MatchString(pattern, s)\<close> compiles the pattern and reports whether it matches
  anywhere in \<open>s\<close>. The model covers the patterns made of literal characters and of the
  dot, which matches any character but the line feed. A pattern that begins with a
  repetition operator is invalid in Go (missing argument to repetition operator). Any
  other use of an operator character is outside the model and is reported as
  \<open>Unmodelled\<close>, which no statement below reads as a result of Go.
  One \<open>char\<close> is read as one character.
\<close>

datatype atom = Lit char | AnyCharNotNL

definition isOperator :: "char \<Rightarrow> bool" where
  "isOperator c = (c = CHR 0x5C \<or> c \<in> set ''*+?()|[]{}^$'')"

fun compileAtoms :: "string \<Rightarrow> error + atom list" where
  "compileAtoms [] = Inr []"
| "compileAtoms (c # cs) =
     (if c \<noteq> CHR ''.'' \<and> isOperator c then Inl Unmodelled
      else (case compileAtoms cs of
              Inl e \<Rightarrow> Inl e
            | Inr as \<Rightarrow> Inr ((if c = CHR ''.'' then AnyCharNotNL else Lit c) # as)))"

definition go_regexp_Compile :: "string \<Rightarrow> error + atom list" where
  "go_regexp_Compile pattern =
     (case pattern of
        [] \<Rightarrow> Inr []
      | c # cs \<Rightarrow>
          (if c = CHR ''*'' \<or> c = CHR ''+'' \<or> c = CHR ''?''
             then Inl (PatternError ''missing argument to repetition operator'')
           else compileAtoms pattern))"

fun matchHere :: "atom list \<Rightarrow> string \<Rightarrow> bool" where
  "matchHere [] s = True"
| "matchHere (a # as) [] = False"
| "matchHere (Lit x # as) (c # cs) = (c = x \<and> matchHere as cs)"
| "matchHere (AnyCharNotNL # as) (c # cs) = (c \<noteq> CHR 0x0A \<and> matchHere as cs)"

fun matchAnywhere :: "atom list \<Rightarrow> string \<Rightarrow> bool" where
  "matchAnywhere as [] = matchHere as []"
| "matchAnywhere as (c # cs) = (matchHere as (c # cs) \<or> matchAnywhere as cs)"

definition go_regexp_MatchString :: "string \<Rightarrow> string \<Rightarrow> error + bool" where
  "go_regexp_MatchString pattern s =
     (case go_regexp_Compile pattern of
        Inl e \<Rightarrow> Inl e
      | Inr as \<Rightarrow> Inr (matchAnywhere as s))"

subsection \<open>\<open>hasExtension\<close>\<close>

type_synonym matcher = "string \<Rightarrow> string \<Rightarrow> error + bool"

fun hasExtension :: "matcher \<Rightarrow> string \<Rightarrow> string list \<Rightarrow> error + string" where
  "hasExtension MatchString src [] = Inr []"
| "hasExtension MatchString src (extension # extensions) =
     (case MatchString extension src of
        Inl err \<Rightarrow> Inl err
      | Inr found \<Rightarrow>
          (if found then Inr extension else hasExtension MatchString src extensions))"

subsection \<open>Package \<open>encoding/base64\<close>: \<open>StdEncoding.EncodeToString\<close>\<close>

definition encodeStd :: string where
  "encodeStd = ''ABCDEFGHIJKLMNOPQRSTUVWXYZabcdefghijklmnopqrstuvwxyz0123456789+/''"

text \<open>The index is below 64 at every use, since a byte is below 256.\<close>

definition sextet :: "nat \<Rightarrow> char" where
  "sextet n = encodeStd ! n"

fun EncodeToString :: "string \<Rightarrow> string" where
  "EncodeToString [] = []"
| "EncodeToString [a] =
     [sextet (of_char a div 4), sextet ((of_char a mod 4) * 16), CHR ''='', CHR ''='']"
| "EncodeToString [a, b] =
     [sextet (of_char a div 4), sextet ((of_char a mod 4) * 16 + of_char b div 16),
      sextet ((of_char b mod 16) * 4), CHR ''='']"
| "EncodeToString (a # b # c # rest) =
     [sextet (of_char a div 4), sextet ((of_char a mod 4) * 16 + of_char b div 16),
      sextet ((of_char b mod 16) * 4 + of_char c div 64), sextet (of_char c mod 64)]
     @ EncodeToString rest"

subsection \<open>The document tree\<close>

text \<open>
  A node of the parsed page is an element with its tag, attributes and children, or a
  text node. The number of an element stands for its address: a selection of goquery
  holds pointers to nodes, and the operations of a selection act on the nodes it points
  to. The root of a document has no parent.
\<close>

datatype node =
    Element nat string "(string \<times> string) list" "node list"
  | TextNode string

fun sameNode :: "node \<Rightarrow> node \<Rightarrow> bool" where
  "sameNode (Element i t as cs) (Element j u bs ds) = (i = j)"
| "sameNode (Element i t as cs) (TextNode s) = False"
| "sameNode (TextNode s) c = False"

fun isTag :: "string \<Rightarrow> node \<Rightarrow> bool" where
  "isTag t (Element i u as cs) = (u = t)"
| "isTag t (TextNode s) = False"

fun descendants :: "node \<Rightarrow> node list" where
  "descendants (Element i t as cs) = concat (map (\<lambda>c. c # descendants c) cs)"
| "descendants (TextNode s) = []"

text \<open>\<open>Find(tag)\<close>: the descendants with that tag, in document order.\<close>

definition Find :: "string \<Rightarrow> node \<Rightarrow> node list" where
  "Find t root = filter (isTag t) (descendants root)"

text \<open>\<open>Attr(name)\<close>: the value of the first attribute with that key, if there is one.\<close>

fun Attr :: "string \<Rightarrow> node \<Rightarrow> string option" where
  "Attr k (Element i t as cs) = map_of as k"
| "Attr k (TextNode s) = None"

text \<open>\<open>SetAttr(name, val)\<close>: the first attribute with that key gets the value; without
  one, the attribute is appended.\<close>

fun setAttribute :: "string \<Rightarrow> string \<Rightarrow> (string \<times> string) list \<Rightarrow> (string \<times> string) list" where
  "setAttribute k v [] = [(k, v)]"
| "setAttribute k v ((k', v') # as) =
     (if k' = k then (k', v) # as else (k', v') # setAttribute k v as)"

fun SetAttr :: "node \<Rightarrow> string \<Rightarrow> string \<Rightarrow> node \<Rightarrow> node" where
  "SetAttr sel k v (Element i t as cs) =
     Element i t (if sameNode sel (Element i t as cs) then setAttribute k v as else as)
       (map (SetAttr sel k v) cs)"
| "SetAttr sel k v (TextNode s) = TextNode s"

text \<open>\<open>AfterHtml(html)\<close> parses the markup and inserts the nodes it yields after the
  selected node, among the children of its parent. \<open>Remove()\<close> detaches the selected
  node from its parent. Neither changes a node that has no parent.\<close>

fun AfterNodes :: "node \<Rightarrow> node list \<Rightarrow> node \<Rightarrow> node" where
  "AfterNodes sel new (Element i t as cs) =
     Element i t as
       (concat (map (\<lambda>c. if sameNode sel c then AfterNodes sel new c # new
                          else [AfterNodes sel new c]) cs))"
| "AfterNodes sel new (TextNode s) = TextNode s"

fun Remove :: "node \<Rightarrow> node \<Rightarrow> node" where
  "Remove sel (Element i t as cs) =
     Element i t as (map (Remove sel) (filter (\<lambda>c. \<not> sameNode sel c) cs))"
| "Remove sel (TextNode s) = TextNode s"

subsection \<open>The collaborators of one run\<close>

text \<open>
  \<open>parseURL\<close> is \<open>url.Parse\<close>, \<open>matchString\<close> is \<open>regexp.MatchString\<close>, \<open>httpGet\<close> is
  \<open>http.Get\<close> with the reading of the body, \<open>newDocument\<close> is \<open>goquery.NewDocument\<close>
  (the page loaded and parsed), \<open>parseFragment\<close> is the parser of the HTML library on
  the markup handed to \<open>AfterHtml\<close>, \<open>render\<close> is \<open>Html()\<close> on the document, and
  \<open>rangeOrder\<close> is the order in which \<open>range\<close> yields the keys of \<open>isImageExtension\<close>,
  which Go leaves unspecified.
\<close>

record world =
  parseURL :: "string \<Rightarrow> error + url_URL"
  matchString :: matcher
  httpGet :: transport
  newDocument :: "string \<Rightarrow> error + node"
  parseFragment :: "string \<Rightarrow> node list"
  render :: "node \<Rightarrow> error + string"
  rangeOrder :: "string list"

definition AfterHtml :: "world \<Rightarrow> node \<Rightarrow> string \<Rightarrow> node \<Rightarrow> node" where
  "AfterHtml w sel html root = AfterNodes sel (parseFragment w html) root"

subsection \<open>The three routines\<close>

text \<open>
  A routine selects its elements and starts one goroutine for each; the goroutines of
  the three routines run concurrently. The model runs them one after the other, in
  document order, on a state made of the tree and of what \<open>log.Println\<close> has printed.
  A goroutine reads the attributes of its own element only, and no other goroutine
  writes them, so it reads them from the selection.
\<close>

type_synonym cure_state = "node \<times> error list"

definition logged :: "error \<Rightarrow> cure_state \<Rightarrow> cure_state" where
  "logged err st = (fst st, snd st @ [err])"

definition cureCSS_unit :: "world \<Rightarrow> url_URL \<Rightarrow> node \<Rightarrow> cure_state \<Rightarrow> cure_state" where
  "cureCSS_unit w origin link st =
     (case Attr ''href'' link of
        None \<Rightarrow> st
      | Some href \<Rightarrow>
          (case hasExtension (matchString w) href [''.css''] of
             Inl err \<Rightarrow> logged err st
           | Inr matchedExtension \<Rightarrow>
               (if matchedExtension \<noteq> [] then
                  (case normalizeSourceUrl (parseURL w) href origin of
                     Inl err \<Rightarrow> logged err st
                   | Inr normalizedHref \<Rightarrow>
                       (case fetch (httpGet w) normalizedHref of
                          Inl err \<Rightarrow> logged err st
                        | Inr source \<Rightarrow>
                            (Remove link
                               (AfterHtml w link (''<style>'' @ source @ ''</style>'') (fst st)),
                             snd st)))
                else st)))"

definition cureCSS :: "world \<Rightarrow> url_URL \<Rightarrow> cure_state \<Rightarrow> cure_state" where
  "cureCSS w origin st =
     foldl (\<lambda>st' link. cureCSS_unit w origin link st') st (Find ''link'' (fst st))"

definition cureJS_unit :: "world \<Rightarrow> url_URL \<Rightarrow> node \<Rightarrow> cure_state \<Rightarrow> cure_state" where
  "cureJS_unit w origin script st =
     (case Attr ''src'' script of
        None \<Rightarrow> st
      | Some src \<Rightarrow>
          (case hasExtension (matchString w) src [''.js''] of
             Inl err \<Rightarrow> logged err st
           | Inr matchedExtension \<Rightarrow>
               (if matchedExtension \<noteq> [] then
                  (case normalizeSourceUrl (parseURL w) src origin of
                     Inl err \<Rightarrow> logged err st
                   | Inr normalizedSrc \<Rightarrow>
                       (case fetch (httpGet w) normalizedSrc of
                          Inl err \<Rightarrow> logged err st
                        | Inr source \<Rightarrow>
                            (Remove script
                               (AfterHtml w script (''<script>'' @ source @ ''</script>'') (fst st)),
                             snd st)))
                else st)))"

definition cureJS :: "world \<Rightarrow> url_URL \<Rightarrow> cure_state \<Rightarrow> cure_state" where
  "cureJS w origin st =
     foldl (\<lambda>st' script. cureJS_unit w origin script st') st (Find ''script'' (fst st))"

definition isImageExtension :: "(string \<times> bool) list" where
  "isImageExtension =
     [(''JPEG'', True), (''jpeg'', True), (''JPG'', True), (''jpg'', True),
      (''GIF'', True), (''gif'', True), (''PNG'', True), (''png'', True),
      (''BMP'', True), (''bmp'', True), (''TIFF'', True), (''tiff'', True)]"

text \<open>\<open>make([]string, len, cap)\<close> panics at run time when \<open>len\<close> exceeds \<open>cap\<close>;
  otherwise the slice holds \<open>len\<close> empty strings.\<close>

definition make_strings :: "nat \<Rightarrow> nat \<Rightarrow> string list outcome" where
  "make_strings len cap =
     (if cap < len then Panic ''runtime error: makeslice: cap out of range''
      else Done (replicate len []))"

definition cureImages_unit ::
  "world \<Rightarrow> url_URL \<Rightarrow> node \<Rightarrow> cure_state \<Rightarrow> cure_state outcome" where
  "cureImages_unit w origin img st =
     (case Attr ''src'' img of
        None \<Rightarrow> Done st
      | Some src \<Rightarrow>
          (case make_strings (length isImageExtension) 0 of
             Panic msg \<Rightarrow> Panic msg
           | Done made \<Rightarrow>
               (let imgExtensions = made @ map (\<lambda>k. ''.'' @ k) (rangeOrder w)
                in case hasExtension (matchString w) src imgExtensions of
                     Inl err \<Rightarrow> Done (logged err st)
                   | Inr matchedExtension \<Rightarrow>
                       (if matchedExtension \<noteq> [] then
                          (case normalizeSourceUrl (parseURL w) src origin of
                             Inl err \<Rightarrow> Done (logged err st)
                           | Inr normalizedSrc \<Rightarrow>
                               (case fetch (httpGet w) normalizedSrc of
                                  Inl err \<Rightarrow> Done (logged err st)
                                | Inr source \<Rightarrow>
                                    Done (SetAttr img ''src''
                                            (''data:image/'' @ ToLower matchedExtension
                                               @ '';base64,'' @ EncodeToString source)
                                            (fst st),
                                          snd st)))
                        else Done st))))"

fun cureImages_units ::
  "world \<Rightarrow> url_URL \<Rightarrow> node list \<Rightarrow> cure_state \<Rightarrow> cure_state outcome" where
  "cureImages_units w origin [] st = Done st"
| "cureImages_units w origin (img # images) st =
     (case cureImages_unit w origin img st of
        Panic msg \<Rightarrow> Panic msg
      | Done st' \<Rightarrow> cureImages_units w origin images st')"

definition cureImages :: "world \<Rightarrow> url_URL \<Rightarrow> cure_state \<Rightarrow> cure_state outcome" where
  "cureImages w origin st = cureImages_units w origin (Find ''img'' (fst st)) st"

definition cureAssets :: "world \<Rightarrow> url_URL \<Rightarrow> node \<Rightarrow> cure_state outcome" where
  "cureAssets w origin website =
     cureImages w origin (cureJS w origin (cureCSS w origin (website, [])))"

subsection \<open>The public operations\<close>

record Ingredients =
  URL :: string

record Antidote =
  ingredients :: "Ingredients option"
  parsedUrl :: "url_URL option"
  website :: "node option"
  curedHtml :: string

definition New :: Antidote where
  "New = \<lparr>ingredients = None, parsedUrl = None, website = None, curedHtml = []\<rparr>"

definition Mix :: "Antidote \<Rightarrow> Ingredients option \<Rightarrow> Antidote" where
  "Mix a ing = a\<lparr>ingredients := ing\<rparr>"

definition Html :: "Antidote \<Rightarrow> string" where
  "Html a = curedHtml a"

text \<open>\<open>Cure\<close> returns its result, the core as the call leaves it and what was logged,
  or the process ends in a panic.\<close>

definition Cure :: "world \<Rightarrow> Antidote \<Rightarrow> ((error + string) \<times> Antidote \<times> error list) outcome" where
  "Cure w a =
     (case ingredients a of
        None \<Rightarrow>
          Done (Inl (ConfigurationError ''Antidote.Mix() must be called before Antidote.Cure().''),
                a, [])
      | Some ing \<Rightarrow>
          (case parseURL w (URL ing) of
             Inl err \<Rightarrow> Done (Inl err, a\<lparr>parsedUrl := None\<rparr>, [])
           | Inr u \<Rightarrow>
               (case newDocument w (URL ing) of
                  Inl err \<Rightarrow> Done (Inl err, a\<lparr>parsedUrl := Some u, website := None\<rparr>, [])
                | Inr doc \<Rightarrow>
                    (case cureAssets w u doc of
                       Panic msg \<Rightarrow> Panic msg
                     | Done st \<Rightarrow>
                         (case render w (fst st) of
                            Inl err \<Rightarrow>
                              Done (Inl err,
                                    a\<lparr>parsedUrl := Some u, website := Some (fst st),
                                      curedHtml := []\<rparr>,
                                    snd st)
                          | Inr html \<Rightarrow>
                              Done (Inr html,
                                    a\<lparr>parsedUrl := Some u, website := Some (fst st),
                                      curedHtml := html\<rparr>,
                                    snd st))))))"

text \<open>What the caller of \<open>Cure\<close> and the reader of the log observe.\<close>

definition observed ::
  "((error + string) \<times> Antidote \<times> error list) outcome \<Rightarrow> ((error + string) \<times> error list) outcome" where
  "observed out = (case out of Panic msg \<Rightarrow> Panic msg | Done r \<Rightarrow> Done (fst r, snd (snd r)))"

subsection \<open>The HTML library: serialising the tree\<close>

text \<open>\<open>Html()\<close> renders the children of the document node. Text and attribute values
  are escaped; the text children of a raw text element are written as they are; a void
  element has no end tag, and a void element with children is an error.\<close>

definition voidElements :: "string list" where
  "voidElements =
     [''area'', ''base'', ''br'', ''col'', ''embed'', ''hr'', ''img'', ''input'', ''keygen'',
      ''link'', ''meta'', ''param'', ''source'', ''track'', ''wbr'']"

definition rawTextElements :: "string list" where
  "rawTextElements =
     [''iframe'', ''noembed'', ''noframes'', ''noscript'', ''plaintext'', ''script'',
      ''style'', ''xmp'']"

definition escapeChar :: "char \<Rightarrow> string" where
  "escapeChar c =
     (if c = CHR ''&'' then ''&amp;''
      else if c = CHR 0x27 then ''&#39;''
      else if c = CHR ''<'' then ''&lt;''
      else if c = CHR ''>'' then ''&gt;''
      else if c = CHR 0x22 then ''&#34;''
      else if c = CHR 0x0D then ''&#13;''
      else [c])"

definition escape :: "string \<Rightarrow> string" where
  "escape s = concat (map escapeChar s)"

definition renderAttr :: "string \<times> string \<Rightarrow> string" where
  "renderAttr kv = '' '' @ fst kv @ ''='' @ [CHR 0x22] @ escape (snd kv) @ [CHR 0x22]"

fun render1 :: "bool \<Rightarrow> node \<Rightarrow> string" where
  "render1 literal (TextNode s) = (if literal then s else escape s)"
| "render1 literal (Element i t as cs) =
     ''<'' @ t @ concat (map renderAttr as) @ ''>'' @
     (if t \<in> set voidElements then []
      else concat (map (render1 (t \<in> set rawTextElements)) cs) @ ''</'' @ t @ ''>'')"

fun voidHasChildren :: "node \<Rightarrow> bool" where
  "voidHasChildren (TextNode s) = False"
| "voidHasChildren (Element i t as cs) =
     (if t \<in> set voidElements then cs \<noteq> [] else list_ex voidHasChildren cs)"

fun html_Render :: "node \<Rightarrow> error + string" where
  "html_Render (TextNode s) = Inr []"
| "html_Render (Element i t as cs) =
     (if list_ex voidHasChildren cs then Inl (RenderError ''html: void element has child nodes'')
      else Inr (concat (map (render1 False) cs)))"

subsection \<open>Concrete runs\<close>

text \<open>
  A concrete run fixes what the network and the HTML parser answer: the pages that
  \<open>goquery.NewDocument\<close> loads, the responses that \<open>http.Get\<close> receives (a URL without
  one is a transport error), and the nodes that the HTML parser reads from each piece of
  markup handed to it.
\<close>

definition loaded :: "(string \<times> node) list \<Rightarrow> string \<Rightarrow> error + node" where
  "loaded pages url =
     (case map_of pages url of
        None \<Rightarrow> Inl (LoadError ''no such host'')
      | Some doc \<Rightarrow> Inr doc)"

definition served :: "(string \<times> Response) list \<Rightarrow> transport" where
  "served assets url =
     (case map_of assets url of
        None \<Rightarrow> Inl (TransportError ''no such host'')
      | Some resp \<Rightarrow> Inr resp)"

definition parsedAs :: "(string \<times> node list) list \<Rightarrow> string \<Rightarrow> node list" where
  "parsedAs fragments markup =
     (case map_of fragments markup of
        None \<Rightarrow> []
      | Some nodes \<Rightarrow> nodes)"

definition run ::
  "(string \<times> node) list \<Rightarrow> (string \<times> Response) list \<Rightarrow> (string \<times> node list) list \<Rightarrow> world" where
  "run pages assets fragments =
     \<lparr>parseURL = go_url_Parse, matchString = go_regexp_MatchString,
      httpGet = served assets, newDocument = loaded pages,
      parseFragment = parsedAs fragments, render = html_Render,
      rangeOrder = map fst isImageExtension\<rparr>"

definition page :: "node list \<Rightarrow> node list \<Rightarrow> node" where
  "page inHead inBody =
     Element 0 [] []
       [Element 1 ''html'' [] [Element 2 ''head'' [] inHead, Element 3 ''body'' [] inBody]]"

definition ok :: "string \<Rightarrow> Response" where
  "ok body = \<lparr>StatusCode = 200, Body = Inr body\<rparr>"

definition notFound :: Response where
  "notFound = \<lparr>StatusCode = 404, Body = Inr ''Not Found''\<rparr>"

definition target :: Antidote where
  "target = Mix New (Some \<lparr>URL = ''http://a.com''\<rparr>)"

text \<open>A page with one image, which the server delivers.\<close>

definition imagePage :: node where
  "imagePage = page [] [Element 4 ''img'' [(''src'', ''http://a.com/x.png'')] []]"

definition imageServed :: world where
  "imageServed =
     run [(''http://a.com'', imagePage)] [(''http://a.com/x.png'', ok ''PNG'')] []"

text \<open>A page with a stylesheet and an image; the server is down for both.\<close>

definition brokenPage :: node where
  "brokenPage =
     page [Element 4 ''link'' [(''rel'', ''stylesheet''), (''href'', ''/x.css'')] []]
          [Element 5 ''img'' [(''src'', ''/x.png'')] []]"

definition assetsDown :: world where
  "assetsDown = run [(''http://a.com'', brokenPage)] [] []"

text \<open>A page with one stylesheet. In \<open>styleServed\<close> the stylesheet is \<open>body{}\<close>; in
  \<open>styleClosesTag\<close> it is the text \<open></style>\<close>, where the parser ends the content of the
  new element at the first closing tag and drops the second one.\<close>

definition stylePage :: node where
  "stylePage =
     page [Element 4 ''link'' [(''rel'', ''stylesheet''), (''href'', ''http://a.com/x.css'')] []] []"

definition styleServed :: world where
  "styleServed =
     run [(''http://a.com'', stylePage)] [(''http://a.com/x.css'', ok ''body{}'')]
       [(''<style>body{}</style>'', [Element 9 ''style'' [] [TextNode ''body{}'']])]"

definition styleClosesTag :: world where
  "styleClosesTag =
     run [(''http://a.com'', stylePage)] [(''http://a.com/x.css'', ok ''</style>'')]
       [(''<style></style></style>'', [Element 9 ''style'' [] []])]"

text \<open>A transport that answers every request with the status 404 and a body.\<close>

definition answers404 :: transport where
  "answers404 url = Inr notFound"

text \<open>A transport whose responses break off while the body is read.\<close>

definition bodyCutOff :: transport where
  "bodyCutOff url = Inr \<lparr>StatusCode = 200, Body = Inl (ReadError ''unexpected EOF'')\<rparr>"

section \<open>Properties\<close>

subsection \<open>The image routine\<close>

text \<open>\<open>make([]string, len(isImageExtension), 0)\<close> asks for twelve elements and a
  capacity of zero, so the goroutine of an image that has a \<open>src\<close> attribute panics
  before it reaches \<open>hasExtension\<close>.\<close>

lemma cureImages_unit_panic_message:
  "cureImages_unit w origin img st = Panic msg \<Longrightarrow>
     msg = ''runtime error: makeslice: cap out of range''"
  by (auto simp: cureImages_unit_def make_strings_def isImageExtension_def
      split: option.splits)

lemma cureImages_unit_src_panics:
  "Attr ''src'' img = Some src \<Longrightarrow>
     cureImages_unit w origin img st = Panic ''runtime error: makeslice: cap out of range''"
  by (simp add: cureImages_unit_def make_strings_def isImageExtension_def)

lemma cureImages_units_panics:
  "img \<in> set images \<Longrightarrow> Attr ''src'' img = Some src \<Longrightarrow>
     cureImages_units w origin images st = Panic ''runtime error: makeslice: cap out of range''"
proof (induction images arbitrary: st)
  case Nil
  then show ?case by simp
next
  case (Cons x xs)
  show ?case
  proof (cases "cureImages_unit w origin x st")
    case (Panic msg)
    then show ?thesis using cureImages_unit_panic_message [OF Panic] by simp
  next
    case (Done st')
    then have "x \<noteq> img" using Cons.prems(2) cureImages_unit_src_panics by fastforce
    then have "img \<in> set xs" using Cons.prems(1) by simp
    then show ?thesis using Done Cons.IH Cons.prems(2) by simp
  qed
qed

text \<open>On a page without \<open>link\<close> and \<open>script\<close> elements the image routine starts from
  the page as it was loaded.\<close>

lemma nothing_to_inline:
  "Find ''link'' doc = [] \<Longrightarrow> Find ''script'' doc = [] \<Longrightarrow>
     cureJS w origin (cureCSS w origin (doc, log)) = (doc, log)"
  by (simp add: cureCSS_def cureJS_def)

text \<open>
  Claim C9 says that \<open>Cure\<close> never panics, also on a page with an image that has a
  \<open>src\<close> attribute. The code does the opposite: when the page loads and the tree that
  the image routine searches holds an \<open>img\<close> element with a \<open>src\<close> attribute, \<open>Cure\<close>
  ends in the panic of \<open>make\<close>, whatever the network answers.
\<close>

theorem Cure_panics_on_image_with_src:
  assumes "ingredients a = Some ing"
    and "parseURL w (URL ing) = Inr u"
    and "newDocument w (URL ing) = Inr doc"
    and "img \<in> set (Find ''img'' (fst (cureJS w u (cureCSS w u (doc, [])))))"
    and "Attr ''src'' img = Some src"
  shows "Cure w a = Panic ''runtime error: makeslice: cap out of range''"
proof -
  have "cureAssets w u doc = Panic ''runtime error: makeslice: cap out of range''"
    unfolding cureAssets_def cureImages_def
    using cureImages_units_panics [OF assms(4) assms(5)] .
  then show ?thesis using assms(1-3) by (simp add: Cure_def)
qed

text \<open>The page \<open>imagePage\<close> is such a page.\<close>

theorem Cure_panics_on_image_with_src_witness:
  "ingredients target = Some \<lparr>URL = ''http://a.com''\<rparr>
   \<and> parseURL imageServed ''http://a.com'' = Inr (emptyURL\<lparr>Scheme := ''http'', Host := ''a.com''\<rparr>)
   \<and> newDocument imageServed ''http://a.com'' = Inr imagePage
   \<and> Element 4 ''img'' [(''src'', ''http://a.com/x.png'')] []
       \<in> set (Find ''img'' (fst (cureJS imageServed (emptyURL\<lparr>Scheme := ''http'', Host := ''a.com''\<rparr>)
                 (cureCSS imageServed (emptyURL\<lparr>Scheme := ''http'', Host := ''a.com''\<rparr>) (imagePage, [])))))
   \<and> Attr ''src'' (Element 4 ''img'' [(''src'', ''http://a.com/x.png'')] []) = Some ''http://a.com/x.png''
   \<and> Cure imageServed target = Panic ''runtime error: makeslice: cap out of range''"
proof -
  let ?u = "emptyURL\<lparr>Scheme := ''http'', Host := ''a.com''\<rparr>"
  let ?img = "Element 4 ''img'' [(''src'', ''http://a.com/x.png'')] []"
  have h1: "ingredients target = Some \<lparr>URL = ''http://a.com''\<rparr>" by code_simp
  have h2: "parseURL imageServed (URL \<lparr>URL = ''http://a.com''\<rparr>) = Inr ?u" by code_simp
  have h3: "newDocument imageServed (URL \<lparr>URL = ''http://a.com''\<rparr>) = Inr imagePage" by code_simp
  have h4: "?img \<in> set (Find ''img'' (fst (cureJS imageServed ?u (cureCSS imageServed ?u (imagePage, [])))))"
    by code_simp
  have h5: "Attr ''src'' ?img = Some ''http://a.com/x.png''" by simp
  have c: "Cure imageServed target = Panic ''runtime error: makeslice: cap out of range''"
    using Cure_panics_on_image_with_src [OF h1 h2 h3 h4 h5] .
  show ?thesis using h1 h2 h3 h4 h5 c by simp
qed

text \<open>
  Claim C1 says that an image whose \<open>src\<close> matches an extension, is normalized and is
  fetched keeps its element and gets a data URL as \<open>src\<close>. On \<open>imagePage\<close> the
  reference matches \<open>.png\<close>, it is normalized and the server delivers the bytes, and
  yet \<open>Cure\<close> ends in the panic of \<open>make\<close>: no attribute is rewritten and no document is
  returned.
\<close>

theorem png_image_is_not_inlined:
  "Find ''img'' imagePage = [Element 4 ''img'' [(''src'', ''http://a.com/x.png'')] []]
   \<and> hasExtension go_regexp_MatchString ''http://a.com/x.png'' [''.png''] = Inr ''.png''
   \<and> normalizeSourceUrl go_url_Parse ''http://a.com/x.png'' (emptyURL\<lparr>Host := ''a.com''\<rparr>)
       = Inr ''http://a.com/x.png''
   \<and> fetch (httpGet imageServed) ''http://a.com/x.png'' = Inr ''PNG''
   \<and> Cure imageServed target = Panic ''runtime error: makeslice: cap out of range''"
  by code_simp

subsection \<open>Failures of one element\<close>

text \<open>The goroutine of a \<open>link\<close> or \<open>script\<close> element that fails in the matcher, in the
  normalizer or in the fetch logs the error and leaves the tree as it is.\<close>

lemma cureCSS_unit_fails_open:
  assumes "Attr ''href'' link = Some href"
    and "hasExtension (matchString w) href [''.css''] = Inl err
         \<or> (hasExtension (matchString w) href [''.css''] = Inr ext \<and> ext \<noteq> []
              \<and> (normalizeSourceUrl (parseURL w) href origin = Inl err
                   \<or> (normalizeSourceUrl (parseURL w) href origin = Inr url
                        \<and> fetch (httpGet w) url = Inl err)))"
  shows "cureCSS_unit w origin link st = (fst st, snd st @ [err])"
  using assms by (auto simp: cureCSS_unit_def logged_def)

lemma cureJS_unit_fails_open:
  assumes "Attr ''src'' script = Some src"
    and "hasExtension (matchString w) src [''.js''] = Inl err
         \<or> (hasExtension (matchString w) src [''.js''] = Inr ext \<and> ext \<noteq> []
              \<and> (normalizeSourceUrl (parseURL w) src origin = Inl err
                   \<or> (normalizeSourceUrl (parseURL w) src origin = Inr url
                        \<and> fetch (httpGet w) url = Inl err)))"
  shows "cureJS_unit w origin script st = (fst st, snd st @ [err])"
  using assms by (auto simp: cureJS_unit_def logged_def)

text \<open>
  Claim C5 says that an element whose unit fails is left untouched, that the failure
  ends that unit only, and that \<open>Cure\<close> still returns a document. On \<open>brokenPage\<close> the
  server is down: the stylesheet routine logs the error of the transport and leaves
  the \<open>link\<close> element untouched, but the fetch of the image is never tried, and \<open>Cure\<close>
  returns neither a document nor an error: it ends in the panic of \<open>make\<close>.
\<close>

theorem failed_fetches_end_in_panic:
  "cureCSS assetsDown (emptyURL\<lparr>Scheme := ''http'', Host := ''a.com''\<rparr>) (brokenPage, [])
     = (brokenPage, [TransportError ''no such host''])
   \<and> fetch (httpGet assetsDown) ''http://a.com//x.png'' = Inl (TransportError ''no such host'')
   \<and> Cure assetsDown target = Panic ''runtime error: makeslice: cap out of range''"
  by code_simp

subsection \<open>Stylesheets and scripts\<close>

text \<open>A unit that fetched its text puts the nodes that the HTML parser reads from
  the markup after the element, and removes the element.\<close>

lemma cureCSS_unit_inlines:
  assumes "Attr ''href'' link = Some href"
    and "hasExtension (matchString w) href [''.css''] = Inr ext" and "ext \<noteq> []"
    and "normalizeSourceUrl (parseURL w) href origin = Inr url"
    and "fetch (httpGet w) url = Inr source"
  shows "cureCSS_unit w origin link st
         = (Remove link (AfterNodes link (parseFragment w (''<style>'' @ source @ ''</style>''))
              (fst st)), snd st)"
  using assms by (simp add: cureCSS_unit_def AfterHtml_def)

lemma cureJS_unit_inlines:
  assumes "Attr ''src'' script = Some src"
    and "hasExtension (matchString w) src [''.js''] = Inr ext" and "ext \<noteq> []"
    and "normalizeSourceUrl (parseURL w) src origin = Inr url"
    and "fetch (httpGet w) url = Inr source"
  shows "cureJS_unit w origin script st
         = (Remove script (AfterNodes script (parseFragment w (''<script>'' @ source @ ''</script>''))
              (fst st)), snd st)"
  using assms by (simp add: cureJS_unit_def AfterHtml_def)

text \<open>A tree that does not hold the selected node is left as it is.\<close>

lemma absent_node_unchanged:
  "list_all (\<lambda>c. \<not> sameNode sel c) (descendants n) \<Longrightarrow>
     AfterNodes sel new n = n \<and> Remove sel n = n"
proof (induction n)
  case (Element i t as cs)
  have each: "\<And>c. c \<in> set cs \<Longrightarrow> \<not> sameNode sel c \<and> AfterNodes sel new c = c \<and> Remove sel c = c"
  proof -
    fix c assume c: "c \<in> set cs"
    have "list_all (\<lambda>d. \<not> sameNode sel d) (c # descendants c)"
      using Element.prems c by (auto simp: list_all_iff)
    then show "\<not> sameNode sel c \<and> AfterNodes sel new c = c \<and> Remove sel c = c"
      using Element.IH [OF c] by simp
  qed
  have a: "concat (map (\<lambda>c. if sameNode sel c then AfterNodes sel new c # new
                          else [AfterNodes sel new c]) cs) = cs"
    using each by (induction cs) auto
  have f: "filter (\<lambda>c. \<not> sameNode sel c) cs = cs"
    using each by (simp add: filter_id_conv)
  have r: "map (Remove sel) cs = cs"
    using each by (simp add: map_idI)
  show ?case using a f r by simp
next
  case (TextNode s)
  then show ?case by simp
qed

lemma absent_nodes_unchanged:
  assumes "list_all (\<lambda>c. list_all (\<lambda>d. \<not> sameNode sel d) (c # descendants c)) cs"
  shows "concat (map (\<lambda>c. if sameNode sel c then AfterNodes sel new c # new
                          else [AfterNodes sel new c]) cs) = cs"
    and "map (Remove sel) (filter (\<lambda>c. \<not> sameNode sel c) cs) = cs"
  using assms by (induction cs) (auto simp: absent_node_unchanged)

text \<open>The selected node stands between the siblings \<open>xs\<close> and \<open>ys\<close>; after
  \<open>AfterNodes\<close> and \<open>Remove\<close> the new nodes stand there, between the same siblings.\<close>

lemma replaced_in_place:
  assumes sel: "sameNode sel l"
    and l: "list_all (\<lambda>d. \<not> sameNode sel d) (descendants l)"
    and xs: "list_all (\<lambda>c. list_all (\<lambda>d. \<not> sameNode sel d) (c # descendants c)) xs"
    and ys: "list_all (\<lambda>c. list_all (\<lambda>d. \<not> sameNode sel d) (c # descendants c)) ys"
    and new: "list_all (\<lambda>c. list_all (\<lambda>d. \<not> sameNode sel d) (c # descendants c)) new"
  shows "Remove sel (AfterNodes sel new (Element i t as (xs @ l # ys)))
         = Element i t as (xs @ new @ ys)"
proof -
  have "AfterNodes sel new (Element i t as (xs @ l # ys))
        = Element i t as (xs @ l # new @ ys)"
    using sel absent_nodes_unchanged(1) [OF xs] absent_nodes_unchanged(1) [OF ys]
      absent_node_unchanged [OF l]
    by simp
  moreover have "Remove sel (Element i t as (xs @ l # new @ ys)) = Element i t as (xs @ new @ ys)"
    using sel absent_nodes_unchanged(2) [OF xs] absent_nodes_unchanged(2) [OF ys]
      absent_nodes_unchanged(2) [OF new]
    by simp
  ultimately show ?thesis by simp
qed

text \<open>
  Claim C4 says that a fetched stylesheet or script becomes exactly one new inline
  element whose literal content is the fetched text. The code writes the text between
  \<open><style>\<close> and \<open></style>\<close> and hands the markup to the HTML parser, which ends the
  content of a \<open>style\<close> element at the first closing tag. For the stylesheet
  \<open></style>\<close> the markup is \<open><style></style></style>\<close>: the new element is empty,
  and the fetched text is nowhere in the document that \<open>Cure\<close> returns.
\<close>

theorem closing_tag_in_stylesheet:
  "fetch (httpGet styleClosesTag) ''http://a.com/x.css'' = Inr ''</style>''
   \<and> map_outcome fst (Cure styleClosesTag target)
       = Done (Inr ''<html><head><style></style></head><body></body></html>'')"
  by code_simp

subsection \<open>The normalizer\<close>

text \<open>
  Claim C2 pins three results of the normalizer. The first and the third are those of
  the code. For \<open>/x.css\<close> against the host \<open>b.com\<close> the claim, like the comment above
  \<open>normalizeSourceUrl\<close>, expects \<open>http://b.com/x.css\<close>; the code joins the host, a
  slash and the reference, and returns \<open>http://b.com//x.css\<close>.
\<close>

theorem normalizeSourceUrl_pinned:
  "normalizeSourceUrl go_url_Parse ''//a.com/x.css'' origin = Inr ''http://a.com/x.css''
   \<and> normalizeSourceUrl go_url_Parse ''/x.css'' (emptyURL\<lparr>Host := ''b.com''\<rparr>)
       = Inr ''http://b.com//x.css''
   \<and> normalizeSourceUrl go_url_Parse ''../../x.css'' (emptyURL\<lparr>Host := ''b.com''\<rparr>)
       = Inr ''http://b.com/x.css''"
proof (intro conjI)
  show "normalizeSourceUrl go_url_Parse ''//a.com/x.css'' origin = Inr ''http://a.com/x.css''"
    by (simp add: normalizeSourceUrl_def go_url_Parse_def cutBefore_def cutAfter_def isCTL_def
        getScheme_def isLower_def isUpper_def isDigit_def parseRest_def hasAuthority_def
        Replace_def addHttpProtocolIfNotExists_def lastAt_def userOf_def emptyURL_def
        ToLower_def)
next
  show "normalizeSourceUrl go_url_Parse ''/x.css'' (emptyURL\<lparr>Host := ''b.com''\<rparr>)
       = Inr ''http://b.com//x.css''"
    by code_simp
next
  show "normalizeSourceUrl go_url_Parse ''../../x.css'' (emptyURL\<lparr>Host := ''b.com''\<rparr>)
       = Inr ''http://b.com/x.css''"
    by code_simp
qed

subsection \<open>The fetcher\<close>

text \<open>
  Claim C3, as amended: \<open>fetch\<close> fails with the error of the transport, or with the
  error of reading the body; when the transport delivers a response and its body is
  read, \<open>fetch\<close> returns the whole body as text, whatever the status of the response.
\<close>

theorem fetch_result:
  "(http_Get url = Inl err \<longrightarrow> fetch http_Get url = Inl err)
   \<and> (http_Get url = Inr \<lparr>StatusCode = code, Body = Inl err\<rparr> \<longrightarrow> fetch http_Get url = Inl err)
   \<and> (http_Get url = Inr \<lparr>StatusCode = code, Body = Inr b\<rparr> \<longrightarrow> fetch http_Get url = Inr b)"
  by (simp add: fetch_def)

theorem fetch_result_witness:
  "(served [] ''http://a.com/x.css'' = Inl (TransportError ''no such host'')
      \<and> fetch (served []) ''http://a.com/x.css'' = Inl (TransportError ''no such host''))
   \<and> (bodyCutOff ''http://a.com/x.css''
        = Inr \<lparr>StatusCode = 200, Body = Inl (ReadError ''unexpected EOF'')\<rparr>
      \<and> fetch bodyCutOff ''http://a.com/x.css'' = Inl (ReadError ''unexpected EOF''))
   \<and> (answers404 ''http://a.com/x.css'' = Inr \<lparr>StatusCode = 404, Body = Inr ''Not Found''\<rparr>
      \<and> fetch answers404 ''http://a.com/x.css'' = Inr ''Not Found'')"
proof -
  have h1: "served [] ''http://a.com/x.css'' = Inl (TransportError ''no such host'')"
    by (simp add: served_def)
  have h2: "bodyCutOff ''http://a.com/x.css''
      = Inr \<lparr>StatusCode = 200, Body = Inl (ReadError ''unexpected EOF'')\<rparr>"
    by (simp add: bodyCutOff_def)
  have h3: "answers404 ''http://a.com/x.css'' = Inr \<lparr>StatusCode = 404, Body = Inr ''Not Found''\<rparr>"
    by (simp add: answers404_def notFound_def)
  have r1: "fetch (served []) ''http://a.com/x.css'' = Inl (TransportError ''no such host'')"
    using fetch_result [of "served []" "''http://a.com/x.css''" "TransportError ''no such host''"]
      h1 by blast
  have r2: "fetch bodyCutOff ''http://a.com/x.css'' = Inl (ReadError ''unexpected EOF'')"
    using fetch_result [of bodyCutOff "''http://a.com/x.css''" "ReadError ''unexpected EOF''" 200]
      h2 by blast
  have r3: "fetch answers404 ''http://a.com/x.css'' = Inr ''Not Found''"
    using fetch_result [of answers404 "''http://a.com/x.css''" _ 404 "''Not Found''"]
      h3 by blast
  show ?thesis using h1 h2 h3 r1 r2 r3 by blast
qed

text \<open>Claim C3 as stated fails: a response with the status 404 is not an error of
  \<open>fetch\<close>, which returns its body.\<close>

theorem fetch_ignores_status_counterexample:
  "answers404 ''http://a.com/x.css'' = Inr notFound
   \<and> StatusCode notFound = 404
   \<and> fetch answers404 ''http://a.com/x.css'' = Inr ''Not Found''"
  by code_simp

subsection \<open>The extension matcher\<close>

lemma hasExtension_skips:
  "list_all (\<lambda>e. M e src = Inr False) before \<Longrightarrow>
     hasExtension M src (before @ exts) = hasExtension M src exts"
  by (induction before) simp_all

text \<open>
  Claim C6, as amended: \<open>hasExtension\<close> tries the candidates in the order of the list
  and stops at the first one that matches or is invalid. It returns that candidate when
  it matches somewhere in the reference, it fails with the error of the pattern when the
  candidate is invalid, and it returns the empty string when every candidate is valid and
  none matches. Matching is case-sensitive: \<open>style.CSS?v=1\<close> against \<open>.css\<close> gives the
  empty string.
\<close>

theorem hasExtension_first_decisive:
  "(list_all (\<lambda>e. M e src = Inr False) before \<and> M c src = Inr True
      \<longrightarrow> hasExtension M src (before @ c # rest) = Inr c)
   \<and> (list_all (\<lambda>e. M e src = Inr False) before \<and> M c src = Inl err
      \<longrightarrow> hasExtension M src (before @ c # rest) = Inl err)
   \<and> (list_all (\<lambda>e. M e src = Inr False) exts \<longrightarrow> hasExtension M src exts = Inr [])
   \<and> hasExtension go_regexp_MatchString ''style.CSS?v=1'' [''.css''] = Inr []"
proof (intro conjI impI)
  assume "list_all (\<lambda>e. M e src = Inr False) before \<and> M c src = Inr True"
  then show "hasExtension M src (before @ c # rest) = Inr c"
    by (simp add: hasExtension_skips)
next
  assume "list_all (\<lambda>e. M e src = Inr False) before \<and> M c src = Inl err"
  then show "hasExtension M src (before @ c # rest) = Inl err"
    by (simp add: hasExtension_skips)
next
  assume "list_all (\<lambda>e. M e src = Inr False) exts"
  then have "hasExtension M src (exts @ []) = hasExtension M src []"
    by (rule hasExtension_skips)
  then show "hasExtension M src exts = Inr []" by simp
next
  show "hasExtension go_regexp_MatchString ''style.CSS?v=1'' [''.css''] = Inr []"
    by code_simp
qed

theorem hasExtension_first_decisive_witness:
  "(list_all (\<lambda>e. go_regexp_MatchString e ''a.css'' = Inr False) [''.js'']
      \<and> go_regexp_MatchString ''.css'' ''a.css'' = Inr True
      \<and> hasExtension go_regexp_MatchString ''a.css'' ([''.js''] @ ''.css'' # [''*'']) = Inr ''.css'')
   \<and> (list_all (\<lambda>e. go_regexp_MatchString e ''a.css'' = Inr False) [''.js'']
      \<and> go_regexp_MatchString ''*'' ''a.css''
           = Inl (PatternError ''missing argument to repetition operator'')
      \<and> hasExtension go_regexp_MatchString ''a.css'' ([''.js''] @ ''*'' # [''.css''])
           = Inl (PatternError ''missing argument to repetition operator''))
   \<and> (list_all (\<lambda>e. go_regexp_MatchString e ''a.css'' = Inr False) [''.js'', ''.png'']
      \<and> hasExtension go_regexp_MatchString ''a.css'' [''.js'', ''.png''] = Inr [])"
proof -
  have js: "list_all (\<lambda>e. go_regexp_MatchString e ''a.css'' = Inr False) [''.js'']"
    by code_simp
  have css: "go_regexp_MatchString ''.css'' ''a.css'' = Inr True"
    by code_simp
  have star: "go_regexp_MatchString ''*'' ''a.css''
      = Inl (PatternError ''missing argument to repetition operator'')"
    by code_simp
  have none: "list_all (\<lambda>e. go_regexp_MatchString e ''a.css'' = Inr False) [''.js'', ''.png'']"
    by code_simp
  note spec = hasExtension_first_decisive [of go_regexp_MatchString "''a.css''"]
  have r1: "hasExtension go_regexp_MatchString ''a.css'' ([''.js''] @ ''.css'' # [''*'']) = Inr ''.css''"
    using spec [of "[''.js'']" "''.css''" "[''*'']"] js css by blast
  have r2: "hasExtension go_regexp_MatchString ''a.css'' ([''.js''] @ ''*'' # [''.css''])
      = Inl (PatternError ''missing argument to repetition operator'')"
    using spec [of "[''.js'']" "''*''" _ "PatternError ''missing argument to repetition operator''"]
      js star by blast
  have r3: "hasExtension go_regexp_MatchString ''a.css'' [''.js'', ''.png''] = Inr []"
    using spec [of _ _ _ _ "[''.js'', ''.png'']"] none by blast
  show ?thesis using js css star none r1 r2 r3 by blast
qed

text \<open>Claim C6 as stated fails: an invalid candidate that stands after a matching one
  is never compiled, and the call does not fail.\<close>

theorem hasExtension_invalid_candidate_counterexample:
  "go_regexp_MatchString ''*'' ''a.css''
     = Inl (PatternError ''missing argument to repetition operator'')
   \<and> hasExtension go_regexp_MatchString ''a.css'' [''.css'', ''*''] = Inr ''.css''"
  by code_simp

lemma matchAnywhere_later: "matchHere as s \<Longrightarrow> matchAnywhere as (pre @ s)"
proof (induction pre)
  case Nil
  then show ?case by (cases s) simp_all
next
  case (Cons p pre)
  then show ?case by simp
qed

text \<open>A pattern of the model matches a string when it matches at some position of it.\<close>

lemma matchAnywhere_iff:
  "matchAnywhere as s \<longleftrightarrow> (\<exists>pre post. s = pre @ post \<and> matchHere as post)"
proof
  assume "matchAnywhere as s"
  then show "\<exists>pre post. s = pre @ post \<and> matchHere as post"
  proof (induction s)
    case Nil
    then show ?case by simp
  next
    case (Cons c cs)
    show ?case
    proof (cases "matchHere as (c # cs)")
      case True
      then have "c # cs = [] @ (c # cs) \<and> matchHere as (c # cs)" by simp
      then show ?thesis by blast
    next
      case False
      then have "matchAnywhere as cs" using Cons.prems by simp
      then obtain pre post where "cs = pre @ post" and "matchHere as post"
        using Cons.IH by blast
      then have "c # cs = (c # pre) @ post \<and> matchHere as post" by simp
      then show ?thesis by blast
    qed
  qed
next
  assume "\<exists>pre post. s = pre @ post \<and> matchHere as post"
  then show "matchAnywhere as s" using matchAnywhere_later by blast
qed

lemma compile_css: "go_regexp_Compile ''.css''
    = Inr [AnyCharNotNL, Lit CHR ''c'', Lit CHR ''s'', Lit CHR ''s'']"
  by (simp add: go_regexp_Compile_def isOperator_def)

text \<open>
  Claim C10, as amended: a candidate is a regular expression, and its dot matches any
  single character except the line feed. So for every reference that holds a character
  other than the line feed followed by \<open>css\<close>, \<open>hasExtension\<close> with \<open>.css\<close> returns
  \<open>.css\<close>; \<open>xcss.json\<close> is such a reference, and does not hold the text \<open>.css\<close>.
\<close>

theorem dot_matches_any_character_but_line_feed:
  "(c \<noteq> CHR 0x0A \<longrightarrow>
      hasExtension go_regexp_MatchString (pre @ c # ''css'' @ post) [''.css''] = Inr ''.css'')
   \<and> hasExtension go_regexp_MatchString ''xcss.json'' [''.css''] = Inr ''.css''
   \<and> \<not> Contains ''xcss.json'' ''.css''"
proof (intro conjI impI)
  assume "c \<noteq> CHR 0x0A"
  then have "matchHere [AnyCharNotNL, Lit CHR ''c'', Lit CHR ''s'', Lit CHR ''s'']
      (c # ''css'' @ post)"
    by simp
  then have "matchAnywhere [AnyCharNotNL, Lit CHR ''c'', Lit CHR ''s'', Lit CHR ''s'']
      (pre @ c # ''css'' @ post)"
    by (rule matchAnywhere_later)
  then show "hasExtension go_regexp_MatchString (pre @ c # ''css'' @ post) [''.css''] = Inr ''.css''"
    by (simp add: go_regexp_MatchString_def compile_css)
next
  show "hasExtension go_regexp_MatchString ''xcss.json'' [''.css''] = Inr ''.css''"
    by code_simp
next
  show "\<not> Contains ''xcss.json'' ''.css''"
    by code_simp
qed

theorem dot_matches_any_character_but_line_feed_witness:
  "CHR ''/'' \<noteq> CHR 0x0A
   \<and> hasExtension go_regexp_MatchString (''http://a.com'' @ CHR ''/'' # ''css'' @ ''files/data.json'')
       [''.css''] = Inr ''.css''"
proof -
  have h: "CHR ''/'' \<noteq> CHR 0x0A" by simp
  show ?thesis
    using h dot_matches_any_character_but_line_feed
      [of "CHR ''/''" "''http://a.com''" "''files/data.json''"]
    by blast
qed

text \<open>Claim C10 as stated fails: in the reference made of a line feed and \<open>css\<close>, a
  character is followed by \<open>css\<close>, and the dot does not match it.\<close>

theorem dot_line_feed_counterexample:
  "hasExtension go_regexp_MatchString [CHR 0x0A, CHR ''c'', CHR ''s'', CHR ''s''] [''.css'']
     = Inr []"
  by code_simp

subsection \<open>Curing before configuration\<close>

text \<open>
  Claim C7: \<open>Cure\<close> on a core without ingredients returns the configuration error and
  no document, and leaves the core as it was. The core stays usable: once \<open>Mix\<close> has
  set a target, \<open>Cure\<close> on that core answers as it does on a new core with that target,
  and for a target that parses and loads it runs the routines and returns the rendered
  document.
\<close>

theorem Cure_before_Mix:
  assumes "ingredients a = None"
  shows "Cure w a
         = Done (Inl (ConfigurationError ''Antidote.Mix() must be called before Antidote.Cure().''),
                 a, [])
       \<and> observed (Cure w (Mix a (Some ing))) = observed (Cure w (Mix New (Some ing)))
       \<and> (parseURL w (URL ing) = Inr u \<and> newDocument w (URL ing) = Inr doc
            \<and> cureAssets w u doc = Done st \<and> render w (fst st) = Inr html
          \<longrightarrow> Cure w (Mix a (Some ing))
              = Done (Inr html,
                      (Mix a (Some ing))\<lparr>parsedUrl := Some u, website := Some (fst st),
                                          curedHtml := html\<rparr>,
                      snd st))"
proof (intro conjI impI)
  show "Cure w a
      = Done (Inl (ConfigurationError ''Antidote.Mix() must be called before Antidote.Cure().''),
              a, [])"
    using assms by (simp add: Cure_def)
next
  show "observed (Cure w (Mix a (Some ing))) = observed (Cure w (Mix New (Some ing)))"
    by (simp add: Cure_def Mix_def observed_def split: sum.splits outcome.splits)
next
  assume "parseURL w (URL ing) = Inr u \<and> newDocument w (URL ing) = Inr doc
      \<and> cureAssets w u doc = Done st \<and> render w (fst st) = Inr html"
  then show "Cure w (Mix a (Some ing))
      = Done (Inr html,
              (Mix a (Some ing))\<lparr>parsedUrl := Some u, website := Some (fst st),
                                  curedHtml := html\<rparr>,
              snd st)"
    by (simp add: Cure_def Mix_def)
qed

theorem Cure_before_Mix_witness:
  "ingredients New = None
   \<and> Cure styleServed New
       = Done (Inl (ConfigurationError ''Antidote.Mix() must be called before Antidote.Cure().''),
               New, [])
   \<and> parseURL styleServed (URL \<lparr>URL = ''http://a.com''\<rparr>)
       = Inr (emptyURL\<lparr>Scheme := ''http'', Host := ''a.com''\<rparr>)
   \<and> newDocument styleServed (URL \<lparr>URL = ''http://a.com''\<rparr>) = Inr stylePage
   \<and> cureAssets styleServed (emptyURL\<lparr>Scheme := ''http'', Host := ''a.com''\<rparr>) stylePage
       = Done (page [Element 9 ''style'' [] [TextNode ''body{}'']] [], [])
   \<and> render styleServed (page [Element 9 ''style'' [] [TextNode ''body{}'']] [])
       = Inr ''<html><head><style>body{}</style></head><body></body></html>''
   \<and> map_outcome fst (Cure styleServed (Mix New (Some \<lparr>URL = ''http://a.com''\<rparr>)))
       = Done (Inr ''<html><head><style>body{}</style></head><body></body></html>'')"
proof -
  let ?u = "emptyURL\<lparr>Scheme := ''http'', Host := ''a.com''\<rparr>"
  let ?doc = "page [Element 9 ''style'' [] [TextNode ''body{}'']] []"
  let ?html = "''<html><head><style>body{}</style></head><body></body></html>''"
  let ?st = "(?doc, [] :: error list)"
  have h0: "ingredients New = None" by (simp add: New_def)
  have h1: "parseURL styleServed (URL \<lparr>URL = ''http://a.com''\<rparr>) = Inr ?u" by code_simp
  have h2: "newDocument styleServed (URL \<lparr>URL = ''http://a.com''\<rparr>) = Inr stylePage" by code_simp
  have h3: "cureAssets styleServed ?u stylePage = Done ?st" by code_simp
  have h4: "render styleServed (fst ?st) = Inr ?html" by code_simp
  note spec = Cure_before_Mix [OF h0, of styleServed "\<lparr>URL = ''http://a.com''\<rparr>" ?u stylePage
      ?st ?html]
  have c1: "Cure styleServed New
       = Done (Inl (ConfigurationError ''Antidote.Mix() must be called before Antidote.Cure().''),
               New, [])"
    using spec by (rule conjunct1)
  have c2: "Cure styleServed (Mix New (Some \<lparr>URL = ''http://a.com''\<rparr>))
       = Done (Inr ?html,
               (Mix New (Some \<lparr>URL = ''http://a.com''\<rparr>))\<lparr>parsedUrl := Some ?u,
                  website := Some (fst ?st), curedHtml := ?html\<rparr>,
               snd ?st)"
    using spec [THEN conjunct2, THEN conjunct2, THEN mp,
        OF conjI [OF h1 conjI [OF h2 conjI [OF h3 h4]]]] .
  show ?thesis using h0 h1 h2 h3 h4 c1 c2 by simp
qed

end
